theory Spec2Isabelle
  imports Main "HOL-Library.Multiset"
begin

section \<open>The outbox table (users/models.py)\<close>

text \<open>
  Timestamps are counted in microseconds, the resolution of Python's \<open>datetime\<close>;
  \<open>timedelta_minutes n\<close> is \<open>timedelta(minutes=n)\<close>.
\<close>

type_synonym time = int

definition timedelta_minutes :: "int \<Rightarrow> time" where
  "timedelta_minutes n = n * 60 * 1000000"

text \<open>The payload \<open>event_context\<close> is a JSON document; the relay never looks inside it.\<close>

datatype json =
    JNull
  | JBool bool
  | JNum int
  | JStr string
  | JArr "json list"
  | JObj "(string \<times> json) list"

text \<open>
  One row of the table \<open>Outbox\<close>. The primary key \<open>id\<close> is the field \<open>row_id\<close>
  (\<open>id\<close> is the identity function of HOL). A \<open>char\<close> stands for one character of a
  Python \<open>str\<close>, so \<open>length\<close> is Python's \<open>len\<close>.

  Modelled from the spec: the base class \<open>core.models.TimeStampedModel\<close> is not part of
  the sources at hand; the spec's data model gives the two fields it contributes,
  \<open>created_at\<close> and \<open>updated_at\<close>, both maintained by the store, \<open>updated_at\<close> being
  the staleness clock.
\<close>

record outbox =
  row_id :: nat
  event_type :: string
  event_date_time :: time
  environment :: string
  event_context :: json
  metadata_version :: nat
  status :: string
  created_at :: time
  updated_at :: time

definition STATUS_PENDING :: string where
  "STATUS_PENDING = ''pending''"

definition STATUS_PROCESSING :: string where
  "STATUS_PROCESSING = ''processing''"

definition STATUS_PROCESSED :: string where
  "STATUS_PROCESSED = ''processed''"

definition STATUS_FAILED :: string where
  "STATUS_FAILED = ''failed''"





section \<open>The store, the sink and the observers\<close>

text \<open>
  An exception raised by the store or by the sink; \<open>str\<close> is Python's \<open>str(e)\<close>.
\<close>

datatype exn = Exception string

fun str :: "exn \<Rightarrow> string" where
  "str (Exception m) = m"

text \<open>
  What a run does to the outside, in order: the structured log, the error tracker, the
  sink, and every update statement the store has committed (the table before it and
  after it).

  Modelled from the spec: \<open>core.event_log_client.EventLogClient\<close> is not part of the
  sources at hand. The spec gives its boundary: a scoped \<open>open\<close> with guaranteed release
  and \<open>insert(records)\<close>, which raises on any failure. Opening and inserting may
  therefore raise; the release does not.
\<close>

datatype field = Str string | Num nat

datatype effect =
    LogInfo string "(string \<times> field) list"
  | LogError string "(string \<times> field) list"
  | CaptureMessage string
  | SinkOpen
  | SinkInsert "outbox list"
  | SinkClose
  | Update "outbox list" "outbox list"

text \<open>
  \<open>QuerySet.filter(p).update(fields)\<close> is one UPDATE statement: it writes the given
  fields of the rows that match and nothing else (no \<open>save()\<close>, hence no automatic
  timestamp), and keeps every row in its place.
\<close>

definition update_where :: "(outbox \<Rightarrow> bool) \<Rightarrow> (outbox \<Rightarrow> outbox) \<Rightarrow> outbox list \<Rightarrow> outbox list" where
  "update_where p f tbl = map (\<lambda>r. if p r then f r else r) tbl"

section \<open>Creating a record and \<open>log_event\<close> (core/use_case.py)\<close>

text \<open>
  \<open>Outbox.objects.create(...)\<close> builds the row and saves it: the store assigns the
  primary key and the two timestamps, and may refuse the row by raising. Saving does not
  call \<open>clean\<close>. The store's clock and its verdict on a row are parameters.
\<close>

record store_env =
  save_now :: time
  insert_exn :: "outbox \<Rightarrow> exn option"

definition next_id :: "outbox list \<Rightarrow> nat" where
  "next_id tbl = Suc (fold max (map row_id tbl) 0)"

definition new_row ::
  "store_env \<Rightarrow> string \<Rightarrow> time \<Rightarrow> string \<Rightarrow> json \<Rightarrow> nat \<Rightarrow> string \<Rightarrow> outbox list \<Rightarrow> outbox" where
  "new_row st etype edt envname ctx mv stat tbl =
     \<lparr>row_id = next_id tbl, event_type = etype, event_date_time = edt,
      environment = envname, event_context = ctx, metadata_version = mv,
      status = stat, created_at = save_now st, updated_at = save_now st\<rparr>"

definition objects_create ::
  "store_env \<Rightarrow> string \<Rightarrow> time \<Rightarrow> string \<Rightarrow> json \<Rightarrow> nat \<Rightarrow> string \<Rightarrow> outbox list
     \<Rightarrow> exn + (outbox \<times> outbox list)" where
  "objects_create st etype edt envname ctx mv stat tbl =
     (let r = new_row st etype edt envname ctx mv stat tbl in
      case insert_exn st r of
        Some e \<Rightarrow> Inl e
      | None \<Rightarrow> Inr (r, tbl @ [r]))"

text \<open>
  \<open>log_event\<close>: the first argument is the value of \<open>timezone.now()\<close>. The result is
  the outcome (a Python call may raise), the table and what was logged.
\<close>

definition log_event ::
  "time \<Rightarrow> store_env \<Rightarrow> string \<Rightarrow> json \<Rightarrow> string \<Rightarrow> outbox list
     \<Rightarrow> (exn + outbox option) \<times> outbox list \<times> effect list" where
  "log_event now st etype ctx envname tbl =
     (case objects_create st etype now envname ctx 1 STATUS_PENDING tbl of
        Inr (log_entry, tbl') \<Rightarrow> (Inr (Some log_entry), tbl', [])
      | Inl e \<Rightarrow>
          (Inr None, tbl,
           [LogError ''Failed to log event''
              [(''error'', Str (str e)), (''event_type'', Str etype)]]))"

section \<open>The relay worker \<open>process_outbox\<close> (users/tasks.py)\<close>

text \<open>
  The surroundings of one run: the four readings of \<open>timezone.now()\<close> and, for each
  call to the store or to the sink, the exception it raises, if any. A store statement
  that raises is rolled back by its \<open>transaction.atomic()\<close> block and leaves the table
  as it was.
\<close>

record world =
  now_stale :: time
  now_processing :: time
  now_processed :: time
  now_failed :: time
  stale_update_exn :: "exn option"
  select_exn :: "exn option"
  mark_processing_exn :: "exn option"
  sink_init_exn :: "exn option"
  sink_insert_exn :: "exn option"
  mark_processed_exn :: "exn option"
  mark_failed_exn :: "exn option"

text \<open>Step 1: rows in \<open>processing\<close> since ten minutes or more become \<open>failed\<close>.\<close>

definition stale_reclaim :: "time \<Rightarrow> outbox list \<Rightarrow> outbox list" where
  "stale_reclaim now tbl =
     (let stale_threshold = now - timedelta_minutes 10 in
      update_where
        (\<lambda>r. status r = STATUS_PROCESSING \<and> updated_at r \<le> stale_threshold)
        (\<lambda>r. r\<lparr>status := STATUS_FAILED\<rparr>) tbl)"

text \<open>
  Step 2: the oldest 500 rows that are \<open>pending\<close> or \<open>failed\<close>. Rows with the same
  \<open>created_at\<close> come in table order.
\<close>

definition select_pending :: "outbox list \<Rightarrow> outbox list" where
  "select_pending tbl =
     take 500 (sort_key created_at
       (filter (\<lambda>r. status r \<in> set [STATUS_PENDING, STATUS_FAILED]) tbl))"

text \<open>Steps 3, 5 and 6: the three updates by \<open>id__in\<close>.\<close>

definition mark_processing :: "nat list \<Rightarrow> time \<Rightarrow> outbox list \<Rightarrow> outbox list" where
  "mark_processing ids now tbl =
     update_where (\<lambda>r. row_id r \<in> set ids)
       (\<lambda>r. r\<lparr>status := STATUS_PROCESSING, updated_at := now\<rparr>) tbl"

definition mark_processed :: "nat list \<Rightarrow> time \<Rightarrow> outbox list \<Rightarrow> outbox list" where
  "mark_processed ids now tbl =
     update_where (\<lambda>r. row_id r \<in> set ids)
       (\<lambda>r. r\<lparr>status := STATUS_PROCESSED, updated_at := now\<rparr>) tbl"

definition mark_failed :: "nat list \<Rightarrow> time \<Rightarrow> outbox list \<Rightarrow> outbox list" where
  "mark_failed ids now tbl =
     update_where (\<lambda>r. row_id r \<in> set ids)
       (\<lambda>r. r\<lparr>status := STATUS_FAILED, updated_at := now\<rparr>) tbl"

text \<open>
  Step 4, \<open>with EventLogClient.init() as client: client.insert(pending_logs)\<close>: the
  exception raised, if any, and the calls made to the sink.
\<close>

definition flush :: "world \<Rightarrow> outbox list \<Rightarrow> exn option \<times> effect list" where
  "flush w pending_logs =
     (case sink_init_exn w of
        Some e \<Rightarrow> (Some e, [])
      | None \<Rightarrow> (sink_insert_exn w, [SinkOpen, SinkInsert pending_logs, SinkClose]))"

text \<open>
  The body of the \<open>try\<close>: its outcome, the value of \<open>pending_logs_ids\<close> when it is
  left, the table and the effects so far.
\<close>

definition try_body ::
  "world \<Rightarrow> outbox list \<Rightarrow> (exn + unit) \<times> nat list \<times> outbox list \<times> effect list" where
  "try_body w tbl =
     (case stale_update_exn w of
        Some e \<Rightarrow> (Inl e, [], tbl, [])
      | None \<Rightarrow>
          (let tbl1 = stale_reclaim (now_stale w) tbl;
               eff1 = [Update tbl tbl1] in
           (case select_exn w of
              Some e \<Rightarrow> (Inl e, [], tbl1, eff1)
            | None \<Rightarrow>
                (let pending_logs = select_pending tbl1 in
                 if pending_logs = []
                 then (Inr (), [], tbl1, eff1 @ [LogInfo ''No pending logs to process'' []])
                 else
                   (let pending_logs_ids = map row_id pending_logs in
                    (case mark_processing_exn w of
                       Some e \<Rightarrow> (Inl e, pending_logs_ids, tbl1, eff1)
                     | None \<Rightarrow>
                         (let tbl2 = mark_processing pending_logs_ids (now_processing w) tbl1;
                              eff2 = eff1 @ [Update tbl1 tbl2] in
                          (case flush w pending_logs of
                             (Some e, effs) \<Rightarrow> (Inl e, pending_logs_ids, tbl2, eff2 @ effs)
                           | (None, effs) \<Rightarrow>
                               (case mark_processed_exn w of
                                  Some e \<Rightarrow> (Inl e, pending_logs_ids, tbl2, eff2 @ effs)
                                | None \<Rightarrow>
                                    (let tbl3 =
                                       mark_processed pending_logs_ids (now_processed w) tbl2 in
                                     (Inr (), pending_logs_ids, tbl3,
                                      eff2 @ effs @
                                      [Update tbl2 tbl3,
                                       LogInfo ''Processed batch''
                                         [(''size'', Num (length pending_logs))]])))))))))))"

text \<open>
  The whole task: the \<open>try\<close> and its \<open>except Exception\<close>. The tracing span opened
  around both (\<open>start_transaction\<close>) does nothing to the table or to the sink and is
  left out.
\<close>

definition process_outbox ::
  "world \<Rightarrow> outbox list \<Rightarrow> (exn + unit) \<times> outbox list \<times> effect list" where
  "process_outbox w tbl =
     (case try_body w tbl of
        (Inr u, pending_logs_ids, tbl', eff) \<Rightarrow> (Inr u, tbl', eff)
      | (Inl e, pending_logs_ids, tbl', eff) \<Rightarrow>
          (let eff' = eff @ [LogError ''Processing failed'' [(''error'', Str (str e))]];
               alert = CaptureMessage (''Outbox processing error: '' @ str e) in
           if pending_logs_ids \<noteq> []
          then
            (case mark_failed_exn w of
               Some e' \<Rightarrow> (Inl e', tbl', eff')
             | None \<Rightarrow>
                 (let tbl'' = mark_failed pending_logs_ids (now_failed w) tbl' in
                  (Inl e, tbl'', eff' @ [Update tbl' tbl'', alert])))
           else (Inl e, tbl', eff' @ [alert])))"

section \<open>Observing a run\<close>

abbreviation run_outcome :: "world \<Rightarrow> outbox list \<Rightarrow> exn + unit" where
  "run_outcome w tbl \<equiv> fst (process_outbox w tbl)"

abbreviation run_table :: "world \<Rightarrow> outbox list \<Rightarrow> outbox list" where
  "run_table w tbl \<equiv> fst (snd (process_outbox w tbl))"

abbreviation run_effects :: "world \<Rightarrow> outbox list \<Rightarrow> effect list" where
  "run_effects w tbl \<equiv> snd (snd (process_outbox w tbl))"

text \<open>The arguments of the calls to \<open>client.insert\<close>, in order.\<close>

fun sink_inserts :: "effect list \<Rightarrow> outbox list list" where
  "sink_inserts [] = []"
| "sink_inserts (SinkInsert batch # es) = batch # sink_inserts es"
| "sink_inserts (_ # es) = sink_inserts es"

text \<open>The committed updates, in order, each as the table before and after.\<close>

fun updates :: "effect list \<Rightarrow> (outbox list \<times> outbox list) list" where
  "updates [] = []"
| "updates (Update before after # es) = (before, after) # updates es"
| "updates (_ # es) = updates es"



section \<open>Concrete tables and surroundings\<close>

definition example_row :: "nat \<Rightarrow> string \<Rightarrow> time \<Rightarrow> time \<Rightarrow> outbox" where
  "example_row i s c u =
     \<lparr>row_id = i, event_type = ''TestEvent'', event_date_time = c, environment = ''test'',
      event_context = JObj [(''data'', JStr ''test'')], metadata_version = 1,
      status = s, created_at = c, updated_at = u\<rparr>"

text \<open>A payload as the callers of \<open>log_event\<close> pass it: a JSON object.\<close>

definition example_context :: json where
  "example_context = JObj [(''data'', JStr ''test'')]"

text \<open>A run in which no call raises.\<close>

definition calm :: world where
  "calm =
     \<lparr>now_stale = 1000000000, now_processing = 1000000001, now_processed = 1000000002,
      now_failed = 1000000003,
      stale_update_exn = None, select_exn = None, mark_processing_exn = None,
      sink_init_exn = None, sink_insert_exn = None, mark_processed_exn = None,
      mark_failed_exn = None\<rparr>"

text \<open>A store that accepts every row, and one that refuses every row.\<close>

definition store_up :: store_env where
  "store_up = \<lparr>save_now = 8, insert_exn = (\<lambda>r. None)\<rparr>"

definition store_down :: store_env where
  "store_down = \<lparr>save_now = 8, insert_exn = (\<lambda>r. Some (Exception ''connection refused''))\<rparr>"

section \<open>Auxiliary facts\<close>

lemmas status_defs =
  STATUS_PENDING_def STATUS_PROCESSING_def STATUS_PROCESSED_def STATUS_FAILED_def

lemma sink_inserts_append: "sink_inserts (xs @ ys) = sink_inserts xs @ sink_inserts ys"
  by (induction xs rule: sink_inserts.induct) simp_all

lemma updates_append: "updates (xs @ ys) = updates xs @ updates ys"
  by (induction xs rule: updates.induct) simp_all

lemma process_outbox_success:
  assumes "run_outcome w tbl = Inr ()"
    and "select_pending (stale_reclaim (now_stale w) tbl) \<noteq> []"
  shows "process_outbox w tbl =
     (let tbl1 = stale_reclaim (now_stale w) tbl;
          pending_logs = select_pending tbl1;
          ids = map row_id pending_logs;
          tbl2 = mark_processing ids (now_processing w) tbl1;
          tbl3 = mark_processed ids (now_processed w) tbl2
      in (Inr (), tbl3,
          [Update tbl tbl1, Update tbl1 tbl2, SinkOpen, SinkInsert pending_logs, SinkClose,
           Update tbl2 tbl3, LogInfo ''Processed batch'' [(''size'', Num (length pending_logs))]]))"
  using assms
  by (simp add: process_outbox_def try_body_def flush_def Let_def split: option.splits if_splits)

lemma stale_reclaim_none:
  assumes "\<forall>r\<in>set tbl. status r \<noteq> STATUS_PROCESSING"
  shows "stale_reclaim now tbl = tbl"
  using assms by (simp add: stale_reclaim_def update_where_def map_idI)

lemma row_id_in_filter:
  assumes "distinct (map row_id tbl)" and "r \<in> set tbl"
  shows "row_id r \<in> row_id ` set (filter p tbl) \<longleftrightarrow> p r"
proof
  assume "row_id r \<in> row_id ` set (filter p tbl)"
  then obtain r' where r': "r' \<in> set tbl" "p r'" "row_id r = row_id r'" by auto
  from assms(1) have "inj_on row_id (set tbl)" by (simp add: distinct_map)
  with r' assms(2) have "r = r'" by (auto dest: inj_onD)
  with r' show "p r" by simp
next
  assume "p r" with assms(2) show "row_id r \<in> row_id ` set (filter p tbl)" by auto
qed

lemma mark_twice:
  "mark_processed ids n (mark_processing ids n' tbl) =
     map (\<lambda>r. if row_id r \<in> set ids then r\<lparr>status := STATUS_PROCESSED, updated_at := n\<rparr> else r) tbl"
  by (simp add: mark_processed_def mark_processing_def update_where_def)

lemma sort_key_eq_Nil: "sort_key f xs = [] \<longleftrightarrow> xs = []"
proof -
  have "length (sort_key f xs) = length xs" by simp
  then show ?thesis by (simp only: length_0_conv [symmetric])
qed

lemma select_pending_only_pending:
  assumes "\<forall>r\<in>set tbl. status r \<noteq> STATUS_FAILED"
    and "length (filter (\<lambda>r. status r = STATUS_PENDING) tbl) \<le> 500"
  shows "select_pending tbl = sort_key created_at (filter (\<lambda>r. status r = STATUS_PENDING) tbl)"
proof -
  have "filter (\<lambda>r. status r \<in> set [STATUS_PENDING, STATUS_FAILED]) tbl =
        filter (\<lambda>r. status r = STATUS_PENDING) tbl"
    using assms(1) by (intro filter_cong) auto
  with assms(2) show ?thesis by (simp add: select_pending_def)
qed

lemma try_body_ids:
  assumes "try_body w tbl = (res, ids, tbl', eff)" and "ids \<noteq> []"
  shows "ids = map row_id (select_pending (stale_reclaim (now_stale w) tbl))"
  using assms
  by (auto simp add: try_body_def flush_def Let_def split: option.splits if_splits prod.splits)















lemma first_update_of_run:
  assumes "stale_update_exn w = None"
  shows "\<exists>rest. updates (run_effects w tbl) = (tbl, stale_reclaim (now_stale w) tbl) # rest"
  using assms
  by (auto simp add: process_outbox_def try_body_def flush_def Let_def updates_append
      split: option.splits if_splits)

lemma second_update_of_run:
  assumes "stale_update_exn w = None" and "select_exn w = None"
    and "mark_processing_exn w = None"
    and "select_pending (stale_reclaim (now_stale w) tbl) \<noteq> []"
  shows "\<exists>rest. updates (run_effects w tbl) =
           (tbl, stale_reclaim (now_stale w) tbl) #
           (stale_reclaim (now_stale w) tbl,
            mark_processing (map row_id (select_pending (stale_reclaim (now_stale w) tbl)))
              (now_processing w) (stale_reclaim (now_stale w) tbl)) # rest"
  using assms
  by (auto simp add: process_outbox_def try_body_def flush_def Let_def updates_append
      split: option.splits if_splits)

lemma run_table_cases:
  assumes "stale_update_exn w = None" and "mark_failed_exn w = None"
  shows "(let tbl1 = stale_reclaim (now_stale w) tbl;
              ids = map row_id (select_pending tbl1);
              tbl2 = mark_processing ids (now_processing w) tbl1
          in run_table w tbl = tbl1 \<or>
             run_table w tbl = mark_failed ids (now_failed w) tbl1 \<or>
             run_table w tbl = mark_failed ids (now_failed w) tbl2 \<or>
             run_table w tbl = mark_processed ids (now_processed w) tbl2)"
  using assms
  by (auto simp add: process_outbox_def try_body_def flush_def Let_def
      split: option.splits if_splits)

section \<open>Claims about \<open>process_outbox\<close>\<close>

text \<open>
  Claim C1, as amended. Take a table with unique ids whose rows are \<open>pending\<close> or
  \<open>processed\<close> only, with at least one and at most 500 \<open>pending\<close> rows. A run that
  returns without raising ends with exactly the rows that were \<open>pending\<close> in status
  \<open>processed\<close> (every other row untouched), and makes exactly one sink insert call,
  whose argument is exactly those rows, as they were when selected, in ascending order of
  \<open>created_at\<close>.
\<close>

theorem successful_run_processes_pending_batch:
  assumes ok: "run_outcome w tbl = Inr ()"
    and ids: "distinct (map row_id tbl)"
    and only: "\<forall>r\<in>set tbl. status r \<noteq> STATUS_PROCESSING \<and> status r \<noteq> STATUS_FAILED"
    and some: "filter (\<lambda>r. status r = STATUS_PENDING) tbl \<noteq> []"
    and few: "length (filter (\<lambda>r. status r = STATUS_PENDING) tbl) \<le> 500"
  shows "run_table w tbl =
           map (\<lambda>r. if status r = STATUS_PENDING
                     then r\<lparr>status := STATUS_PROCESSED, updated_at := now_processed w\<rparr>
                     else r) tbl \<and>
         sink_inserts (run_effects w tbl) =
           [sort_key created_at (filter (\<lambda>r. status r = STATUS_PENDING) tbl)] \<and>
         sorted (map created_at (sort_key created_at (filter (\<lambda>r. status r = STATUS_PENDING) tbl))) \<and>
         mset (sort_key created_at (filter (\<lambda>r. status r = STATUS_PENDING) tbl)) =
           mset (filter (\<lambda>r. status r = STATUS_PENDING) tbl)"
proof -
  let ?P = "filter (\<lambda>r. status r = STATUS_PENDING) tbl"
  let ?batch = "sort_key created_at ?P"
  let ?ids = "map row_id ?batch"
  have tbl1: "stale_reclaim (now_stale w) tbl = tbl"
    using only by (simp add: stale_reclaim_none)
  have sel: "select_pending tbl = ?batch"
    using only few by (simp add: select_pending_only_pending)
  have nonempty: "select_pending (stale_reclaim (now_stale w) tbl) \<noteq> []"
    using some by (simp add: tbl1 sel sort_key_eq_Nil)
  have run: "process_outbox w tbl =
      (Inr (), mark_processed ?ids (now_processed w) (mark_processing ?ids (now_processing w) tbl),
       [Update tbl tbl, Update tbl (mark_processing ?ids (now_processing w) tbl),
        SinkOpen, SinkInsert ?batch, SinkClose,
        Update (mark_processing ?ids (now_processing w) tbl)
          (mark_processed ?ids (now_processed w) (mark_processing ?ids (now_processing w) tbl)),
        LogInfo ''Processed batch'' [(''size'', Num (length ?batch))]])"
    using process_outbox_success [OF ok nonempty] by (simp add: tbl1 sel Let_def)
  have member: "row_id r \<in> set ?ids \<longleftrightarrow> status r = STATUS_PENDING" if "r \<in> set tbl" for r
    using row_id_in_filter [OF ids that, of "\<lambda>r. status r = STATUS_PENDING"] by simp
  have "run_table w tbl =
      map (\<lambda>r. if row_id r \<in> set ?ids
                then r\<lparr>status := STATUS_PROCESSED, updated_at := now_processed w\<rparr> else r) tbl"
    by (simp only: run fst_conv snd_conv mark_twice)
  also have "\<dots> = map (\<lambda>r. if status r = STATUS_PENDING
                     then r\<lparr>status := STATUS_PROCESSED, updated_at := now_processed w\<rparr>
                     else r) tbl"
    by (rule map_cong) (simp_all only: member refl)
  finally have table: "run_table w tbl =
      map (\<lambda>r. if status r = STATUS_PENDING
                then r\<lparr>status := STATUS_PROCESSED, updated_at := now_processed w\<rparr>
                else r) tbl" .
  have calls: "sink_inserts (run_effects w tbl) = [?batch]"
    by (simp add: run)
  from table calls show ?thesis by simp
qed

theorem successful_run_processes_pending_batch_witness:
  "run_table calm [example_row 1 STATUS_PENDING 7 7, example_row 2 STATUS_PROCESSED 1 1,
                   example_row 3 STATUS_PENDING 4 4] =
     [example_row 1 STATUS_PROCESSED 7 1000000002, example_row 2 STATUS_PROCESSED 1 1,
      example_row 3 STATUS_PROCESSED 4 1000000002] \<and>
   sink_inserts (run_effects calm [example_row 1 STATUS_PENDING 7 7, example_row 2 STATUS_PROCESSED 1 1,
                   example_row 3 STATUS_PENDING 4 4]) =
     [[example_row 3 STATUS_PENDING 4 4, example_row 1 STATUS_PENDING 7 7]]"
proof -
  let ?tbl = "[example_row 1 STATUS_PENDING 7 7, example_row 2 STATUS_PROCESSED 1 1,
               example_row 3 STATUS_PENDING 4 4]"
  have ok: "run_outcome calm ?tbl = Inr ()"
    by (simp add: process_outbox_def try_body_def flush_def Let_def calm_def example_row_def
        stale_reclaim_def select_pending_def update_where_def status_defs)
  have ids: "distinct (map row_id ?tbl)"
    by (simp add: example_row_def)
  have only: "\<forall>r\<in>set ?tbl. status r \<noteq> STATUS_PROCESSING \<and> status r \<noteq> STATUS_FAILED"
    by (simp add: example_row_def status_defs)
  have some: "filter (\<lambda>r. status r = STATUS_PENDING) ?tbl \<noteq> []"
    by (simp add: example_row_def status_defs)
  have few: "length (filter (\<lambda>r. status r = STATUS_PENDING) ?tbl) \<le> 500"
    by (simp add: example_row_def status_defs)
  show ?thesis
    using successful_run_processes_pending_batch [OF ok ids only some few]
    by (simp add: example_row_def status_defs calm_def)
qed

text \<open>
  Claim C1 as stated fails for a table with no \<open>pending\<close> row (N = 0): the run returns
  without any sink insert call. It also fails for a run in which the sink insert succeeds
  and the update to \<open>processed\<close> then raises: the row ends \<open>failed\<close>.
\<close>

theorem empty_batch_counterexample:
  "run_outcome calm [example_row 2 STATUS_PROCESSED 1 1] = Inr () \<and>
   length (filter (\<lambda>r. status r = STATUS_PENDING) [example_row 2 STATUS_PROCESSED 1 1]) = 0 \<and>
   sink_inserts (run_effects calm [example_row 2 STATUS_PROCESSED 1 1]) = [] \<and>
   sink_insert_exn (calm\<lparr>mark_processed_exn := Some (Exception ''deadlock'')\<rparr>) = None \<and>
   sink_inserts (run_effects (calm\<lparr>mark_processed_exn := Some (Exception ''deadlock'')\<rparr>)
       [example_row 1 STATUS_PENDING 7 7]) = [[example_row 1 STATUS_PENDING 7 7]] \<and>
   run_table (calm\<lparr>mark_processed_exn := Some (Exception ''deadlock'')\<rparr>)
       [example_row 1 STATUS_PENDING 7 7] = [example_row 1 STATUS_FAILED 7 1000000003]"
  by (simp add: process_outbox_def try_body_def flush_def Let_def calm_def example_row_def
        stale_reclaim_def select_pending_def update_where_def status_defs mark_processing_def
        mark_failed_def)

text \<open>
  Claim C2, as amended. Let the body of the \<open>try\<close> raise \<open>e\<close>, and let the
  handler's own update not raise. If ids had been claimed, they are the ids selected in
  step 2; one update sets every row with such an id to \<open>failed\<close> and refreshes its
  \<open>updated_at\<close>; before it the error is logged with \<open>str(e)\<close>, after it the alert
  is raised with \<open>str(e)\<close>; and \<open>e\<close> itself is raised to the caller. If no ids had
  been claimed, the handler logs, alerts and raises \<open>e\<close> and commits no update: the
  table stays as the body left it.
\<close>

theorem failure_handling:
  assumes body: "try_body w tbl = (Inl e, ids, tbl', eff)"
    and handler: "mark_failed_exn w = None"
  shows "run_outcome w tbl = Inl e \<and>
         (ids \<noteq> [] \<longrightarrow>
            ids = map row_id (select_pending (stale_reclaim (now_stale w) tbl)) \<and>
            run_table w tbl = mark_failed ids (now_failed w) tbl' \<and>
            (\<forall>r\<in>set (run_table w tbl).
               row_id r \<in> set ids \<longrightarrow> status r = STATUS_FAILED \<and> updated_at r = now_failed w) \<and>
            run_effects w tbl =
              eff @ [LogError ''Processing failed'' [(''error'', Str (str e))],
                     Update tbl' (mark_failed ids (now_failed w) tbl'),
                     CaptureMessage (''Outbox processing error: '' @ str e)]) \<and>
         (ids = [] \<longrightarrow>
            run_table w tbl = tbl' \<and>
            run_effects w tbl =
              eff @ [LogError ''Processing failed'' [(''error'', Str (str e))],
                     CaptureMessage (''Outbox processing error: '' @ str e)])"
proof -
  have failed: "\<forall>r\<in>set (mark_failed ids (now_failed w) tbl').
      row_id r \<in> set ids \<longrightarrow> status r = STATUS_FAILED \<and> updated_at r = now_failed w"
    by (auto simp add: mark_failed_def update_where_def)
  have claimed: "ids = map row_id (select_pending (stale_reclaim (now_stale w) tbl))"
    if "ids \<noteq> []"
    using try_body_ids [OF body that] .
  show ?thesis
  proof (cases "ids = []")
    case True
    then show ?thesis
      by (simp add: process_outbox_def body handler Let_def)
  next
    case False
    with failed claimed show ?thesis
      by (simp add: process_outbox_def body handler Let_def)
  qed
qed

theorem failure_handling_witness:
  "process_outbox (calm\<lparr>sink_insert_exn := Some (Exception ''sink down'')\<rparr>)
       [example_row 1 STATUS_PENDING 7 7] =
     (Inl (Exception ''sink down''), [example_row 1 STATUS_FAILED 7 1000000003],
      [Update [example_row 1 STATUS_PENDING 7 7] [example_row 1 STATUS_PENDING 7 7],
       Update [example_row 1 STATUS_PENDING 7 7] [example_row 1 STATUS_PROCESSING 7 1000000001],
       SinkOpen, SinkInsert [example_row 1 STATUS_PENDING 7 7], SinkClose,
       LogError ''Processing failed'' [(''error'', Str ''sink down'')],
       Update [example_row 1 STATUS_PROCESSING 7 1000000001] [example_row 1 STATUS_FAILED 7 1000000003],
       CaptureMessage ''Outbox processing error: sink down'']) \<and>
   process_outbox (calm\<lparr>stale_update_exn := Some (Exception ''db down'')\<rparr>)
       [example_row 1 STATUS_PENDING 7 7] =
     (Inl (Exception ''db down''), [example_row 1 STATUS_PENDING 7 7],
      [LogError ''Processing failed'' [(''error'', Str ''db down'')],
       CaptureMessage ''Outbox processing error: db down''])"
proof -
  let ?w = "calm\<lparr>sink_insert_exn := Some (Exception ''sink down'')\<rparr>"
  let ?v = "calm\<lparr>stale_update_exn := Some (Exception ''db down'')\<rparr>"
  let ?tbl = "[example_row 1 STATUS_PENDING 7 7]"
  have body: "try_body ?w ?tbl =
      (Inl (Exception ''sink down''), [1], [example_row 1 STATUS_PROCESSING 7 1000000001],
       [Update ?tbl ?tbl, Update ?tbl [example_row 1 STATUS_PROCESSING 7 1000000001],
        SinkOpen, SinkInsert ?tbl, SinkClose])"
    by (simp add: try_body_def flush_def Let_def calm_def example_row_def stale_reclaim_def
        select_pending_def mark_processing_def update_where_def status_defs)
  have handler: "mark_failed_exn ?w = None"
    by (simp add: calm_def)
  have body': "try_body ?v ?tbl = (Inl (Exception ''db down''), [], ?tbl, [])"
    by (simp add: try_body_def calm_def)
  have handler': "mark_failed_exn ?v = None"
    by (simp add: calm_def)
  have split: "p = (fst p, fst (snd p), snd (snd p))" for p :: "(exn + unit) \<times> outbox list \<times> effect list"
    by simp
  show ?thesis
    using failure_handling [OF body handler] failure_handling [OF body' handler']
    by (subst (1 2) split)
       (simp add: mark_failed_def update_where_def example_row_def status_defs calm_def)
qed

text \<open>
  Claim C2 as stated fails in two runs. When the sink insert raises and the handler's
  update raises as well, the claimed row stays \<open>processing\<close>, no alert is raised and
  the second exception reaches the caller. When the selection of step 2 raises, no ids
  were claimed, yet the stale row has already been moved to \<open>failed\<close> by step 1.
\<close>

theorem failure_handling_counterexample:
  "process_outbox
       (calm\<lparr>sink_insert_exn := Some (Exception ''sink down''),
              mark_failed_exn := Some (Exception ''db down'')\<rparr>)
       [example_row 1 STATUS_PENDING 7 7] =
     (Inl (Exception ''db down''), [example_row 1 STATUS_PROCESSING 7 1000000001],
      [Update [example_row 1 STATUS_PENDING 7 7] [example_row 1 STATUS_PENDING 7 7],
       Update [example_row 1 STATUS_PENDING 7 7] [example_row 1 STATUS_PROCESSING 7 1000000001],
       SinkOpen, SinkInsert [example_row 1 STATUS_PENDING 7 7], SinkClose,
       LogError ''Processing failed'' [(''error'', Str ''sink down'')]]) \<and>
   process_outbox (calm\<lparr>select_exn := Some (Exception ''db down'')\<rparr>)
       [example_row 2 STATUS_PROCESSING 1 1] =
     (Inl (Exception ''db down''), [example_row 2 STATUS_FAILED 1 1],
      [Update [example_row 2 STATUS_PROCESSING 1 1] [example_row 2 STATUS_FAILED 1 1],
       LogError ''Processing failed'' [(''error'', Str ''db down'')],
       CaptureMessage ''Outbox processing error: db down''])"
  by (simp add: process_outbox_def try_body_def flush_def Let_def calm_def example_row_def
      stale_reclaim_def select_pending_def mark_processing_def update_where_def status_defs
      timedelta_minutes_def)

text \<open>
  Claim C3, as amended. A run that reaches step 3 commits the update
  \<open>mark_processing\<close> with the ids selected in step 2. That update is filtered by the
  id set alone: on whatever table it meets, it sets every row whose id is in the set to
  \<open>processing\<close> (refreshing \<open>updated_at\<close>), whatever the status of the row, and leaves
  every other row as it is.
\<close>

theorem mark_processing_filters_by_id_only:
  assumes "stale_update_exn w = None" and "select_exn w = None"
    and "mark_processing_exn w = None"
    and "select_pending (stale_reclaim (now_stale w) tbl) \<noteq> []"
  shows "(stale_reclaim (now_stale w) tbl,
          mark_processing (map row_id (select_pending (stale_reclaim (now_stale w) tbl)))
            (now_processing w) (stale_reclaim (now_stale w) tbl))
           \<in> set (updates (run_effects w tbl)) \<and>
         length (mark_processing ids now tbl') = length tbl' \<and>
         (\<forall>i<length tbl'.
            mark_processing ids now tbl' ! i =
              (if row_id (tbl' ! i) \<in> set ids
               then (tbl' ! i)\<lparr>status := STATUS_PROCESSING, updated_at := now\<rparr>
               else tbl' ! i))"
proof -
  have "(stale_reclaim (now_stale w) tbl,
          mark_processing (map row_id (select_pending (stale_reclaim (now_stale w) tbl)))
            (now_processing w) (stale_reclaim (now_stale w) tbl))
           \<in> set (updates (run_effects w tbl))"
    using assms
    by (simp add: process_outbox_def try_body_def flush_def Let_def updates_append
        split: option.splits)
  then show ?thesis
    by (simp add: mark_processing_def update_where_def)
qed

theorem mark_processing_filters_by_id_only_witness:
  "([example_row 1 STATUS_PENDING 7 7],
    mark_processing [1] 1000000001 [example_row 1 STATUS_PENDING 7 7])
     \<in> set (updates (run_effects calm [example_row 1 STATUS_PENDING 7 7])) \<and>
   mark_processing [1] 9 [example_row 1 STATUS_PROCESSED 1 1, example_row 2 STATUS_PENDING 2 2] =
     [example_row 1 STATUS_PROCESSING 1 9, example_row 2 STATUS_PENDING 2 2]"
proof -
  let ?tbl = "[example_row 1 STATUS_PENDING 7 7]"
  let ?tbl' = "[example_row 1 STATUS_PROCESSED 1 1, example_row 2 STATUS_PENDING 2 2]"
  have same: "stale_reclaim (now_stale calm) ?tbl = ?tbl"
    by (simp add: stale_reclaim_def update_where_def example_row_def status_defs)
  have sel: "select_pending ?tbl = ?tbl"
    by (simp add: select_pending_def example_row_def status_defs)
  have ok: "stale_update_exn calm = None" "select_exn calm = None" "mark_processing_exn calm = None"
    by (simp_all add: calm_def)
  have nonempty: "select_pending (stale_reclaim (now_stale calm) ?tbl) \<noteq> []"
    unfolding same sel by simp
  note fact = mark_processing_filters_by_id_only [OF ok nonempty, of "[1]" 9 ?tbl']
  from fact [unfolded same sel]
  have run: "(?tbl, mark_processing [1] 1000000001 ?tbl)
      \<in> set (updates (run_effects calm ?tbl))"
    by (simp add: example_row_def calm_def)
  from fact have "length (mark_processing [1] 9 ?tbl') = 2"
    and "mark_processing [1] 9 ?tbl' ! 0 = example_row 1 STATUS_PROCESSING 1 9"
    and "mark_processing [1] 9 ?tbl' ! 1 = example_row 2 STATUS_PENDING 2 2"
    by (simp_all add: example_row_def All_less_Suc numeral_2_eq_2)
  then have "mark_processing [1] 9 ?tbl' =
      [example_row 1 STATUS_PROCESSING 1 9, example_row 2 STATUS_PENDING 2 2]"
    by (cases "mark_processing [1] 9 ?tbl'"; cases "tl (mark_processing [1] 9 ?tbl')") auto
  with run show ?thesis by simp
qed

text \<open>
  Claim C3 as stated fails: the update has no filter on the status. A row selected while
  \<open>pending\<close> and turned \<open>processed\<close> by another writer before step 3 is moved back to
  \<open>processing\<close>.
\<close>

theorem blind_id_update_counterexample:
  "map row_id (select_pending [example_row 1 STATUS_PENDING 1 1]) = [1] \<and>
   STATUS_PROCESSED \<notin> set [STATUS_PENDING, STATUS_FAILED] \<and>
   mark_processing [1] 9 [example_row 1 STATUS_PROCESSED 1 5] =
     [example_row 1 STATUS_PROCESSING 1 9]"
  by (simp add: select_pending_def mark_processing_def update_where_def example_row_def status_defs)




text \<open>
  Claim C5, as amended. Let neither the stale-reclaim update nor the handler's update
  raise. A row that is \<open>processing\<close> with \<open>updated_at\<close> ten minutes or more before the
  start of the run is, after the run (whether it returns or raises), the same row in the
  same place, with status \<open>failed\<close> or \<open>processed\<close>.
\<close>

theorem stale_record_leaves_processing:
  assumes stale: "stale_update_exn w = None" and handler: "mark_failed_exn w = None"
    and i: "i < length tbl"
    and processing: "status (tbl ! i) = STATUS_PROCESSING"
    and old: "updated_at (tbl ! i) \<le> now_stale w - timedelta_minutes 10"
  shows "length (run_table w tbl) = length tbl \<and>
         row_id (run_table w tbl ! i) = row_id (tbl ! i) \<and>
         (status (run_table w tbl ! i) = STATUS_FAILED \<or>
          status (run_table w tbl ! i) = STATUS_PROCESSED)"
proof -
  let ?tbl1 = "stale_reclaim (now_stale w) tbl"
  let ?ids = "map row_id (select_pending ?tbl1)"
  let ?tbl2 = "mark_processing ?ids (now_processing w) ?tbl1"
  have reclaimed: "?tbl1 ! i = (tbl ! i)\<lparr>status := STATUS_FAILED\<rparr>"
    using i processing old by (simp add: stale_reclaim_def update_where_def Let_def)
  from run_table_cases [OF stale handler, of tbl]
  consider "run_table w tbl = ?tbl1"
    | "run_table w tbl = mark_failed ?ids (now_failed w) ?tbl1"
    | "run_table w tbl = mark_failed ?ids (now_failed w) ?tbl2"
    | "run_table w tbl = mark_processed ?ids (now_processed w) ?tbl2"
    by (auto simp add: Let_def)
  then show ?thesis
  proof cases
    case 1
    with i reclaimed show ?thesis
      by (simp add: stale_reclaim_def update_where_def Let_def)
  next
    case 2
    with i reclaimed show ?thesis
      by (simp add: stale_reclaim_def mark_failed_def update_where_def Let_def)
  next
    case 3
    with i reclaimed show ?thesis
      by (simp add: stale_reclaim_def mark_failed_def mark_processing_def update_where_def Let_def)
  next
    case 4
    with i reclaimed show ?thesis
      by (simp add: stale_reclaim_def mark_processed_def mark_processing_def update_where_def Let_def)
  qed
qed

theorem stale_record_leaves_processing_witness:
  "status (run_table calm [example_row 1 STATUS_PENDING 7 7, example_row 2 STATUS_PROCESSING 1 1] ! 1)
     = STATUS_PROCESSED \<and>
   status (run_table (calm\<lparr>sink_init_exn := Some (Exception ''sink down'')\<rparr>)
      [example_row 1 STATUS_PENDING 7 7, example_row 2 STATUS_PROCESSING 1 1] ! 1) = STATUS_FAILED"
proof -
  let ?tbl = "[example_row 1 STATUS_PENDING 7 7, example_row 2 STATUS_PROCESSING 1 1]"
  let ?w = "calm\<lparr>sink_init_exn := Some (Exception ''sink down'')\<rparr>"
  have i: "1 < length ?tbl" by simp
  have processing: "status (?tbl ! 1) = STATUS_PROCESSING"
    by (simp add: example_row_def)
  have old: "updated_at (?tbl ! 1) \<le> now_stale calm - timedelta_minutes 10"
    and old': "updated_at (?tbl ! 1) \<le> now_stale ?w - timedelta_minutes 10"
    by (simp_all add: example_row_def calm_def timedelta_minutes_def)
  have ok: "stale_update_exn calm = None" "mark_failed_exn calm = None"
    and ok': "stale_update_exn ?w = None" "mark_failed_exn ?w = None"
    by (simp_all add: calm_def)
  have "status (run_table calm ?tbl ! 1) \<noteq> STATUS_FAILED"
    by (simp add: process_outbox_def try_body_def flush_def Let_def calm_def example_row_def
        stale_reclaim_def select_pending_def mark_processing_def mark_processed_def
        update_where_def status_defs timedelta_minutes_def)
  moreover have "status (run_table ?w ?tbl ! 1) \<noteq> STATUS_PROCESSED"
    by (simp add: process_outbox_def try_body_def flush_def Let_def calm_def example_row_def
        stale_reclaim_def select_pending_def mark_processing_def mark_failed_def
        update_where_def status_defs timedelta_minutes_def)
  ultimately show ?thesis
    using stale_record_leaves_processing [OF ok i processing old]
          stale_record_leaves_processing [OF ok' i processing old']
    by blast
qed

text \<open>
  Claim C5 as stated fails for a run that raises in step 1: the stale row is still
  \<open>processing\<close> when the run is over.
\<close>

theorem stale_reclaim_raises_counterexample:
  "process_outbox (calm\<lparr>stale_update_exn := Some (Exception ''db down'')\<rparr>)
      [example_row 2 STATUS_PROCESSING 1 1] =
     (Inl (Exception ''db down''), [example_row 2 STATUS_PROCESSING 1 1],
      [LogError ''Processing failed'' [(''error'', Str ''db down'')],
       CaptureMessage ''Outbox processing error: db down'']) \<and>
   status (example_row 2 STATUS_PROCESSING 1 1) = STATUS_PROCESSING \<and>
   updated_at (example_row 2 STATUS_PROCESSING 1 1) <
     now_stale (calm\<lparr>stale_update_exn := Some (Exception ''db down'')\<rparr>) - timedelta_minutes 10"
  by (simp add: process_outbox_def try_body_def Let_def calm_def example_row_def
      timedelta_minutes_def)

text \<open>
  Claim C8. A run whose selection finds no row that is \<open>pending\<close> or \<open>failed\<close>
  returns normally; the only update it commits is the stale reclaim, it makes no call to
  the sink, and it logs that there was nothing to do.
\<close>

theorem empty_claim_is_noop:
  assumes "stale_update_exn w = None" and "select_exn w = None"
    and "filter (\<lambda>r. status r \<in> set [STATUS_PENDING, STATUS_FAILED])
           (stale_reclaim (now_stale w) tbl) = []"
  shows "process_outbox w tbl =
           (Inr (), stale_reclaim (now_stale w) tbl,
            [Update tbl (stale_reclaim (now_stale w) tbl),
             LogInfo ''No pending logs to process'' []])"
  using assms by (simp add: process_outbox_def try_body_def select_pending_def Let_def)

theorem empty_claim_is_noop_witness:
  "process_outbox calm [example_row 1 STATUS_PROCESSED 1 1, example_row 2 STATUS_PROCESSING 2 999999999] =
     (Inr (), [example_row 1 STATUS_PROCESSED 1 1, example_row 2 STATUS_PROCESSING 2 999999999],
      [Update [example_row 1 STATUS_PROCESSED 1 1, example_row 2 STATUS_PROCESSING 2 999999999]
              [example_row 1 STATUS_PROCESSED 1 1, example_row 2 STATUS_PROCESSING 2 999999999],
       LogInfo ''No pending logs to process'' []])"
proof -
  let ?tbl = "[example_row 1 STATUS_PROCESSED 1 1, example_row 2 STATUS_PROCESSING 2 999999999]"
  have same: "stale_reclaim (now_stale calm) ?tbl = ?tbl"
    by (simp add: stale_reclaim_def update_where_def calm_def example_row_def status_defs
        timedelta_minutes_def)
  have none: "filter (\<lambda>r. status r \<in> set [STATUS_PENDING, STATUS_FAILED])
                (stale_reclaim (now_stale calm) ?tbl) = []"
    unfolding same by (simp add: example_row_def status_defs)
  have "stale_update_exn calm = None" and "select_exn calm = None"
    by (simp_all add: calm_def)
  from empty_claim_is_noop [OF this none] show ?thesis
    by (simp only: same)
qed

text \<open>
  Claim C9. Every run whose stale-reclaim update does not raise commits it first, and
  that update writes the status only: it turns the status of the stale rows to
  \<open>failed\<close> and leaves every \<open>updated_at\<close> as it was. The three other updates of a
  run write the status and the current time into \<open>updated_at\<close> of every row whose
  id was claimed: the update to \<open>processing\<close> in every run that reaches step 3, the
  update to \<open>processed\<close> in every successful run, and the update to \<open>failed\<close> by the
  handler of a run that raised after the claim.
\<close>

theorem run_updates_write_updated_at:
  "(let tbl1 = map (\<lambda>r. if status r = STATUS_PROCESSING \<and>
                            updated_at r \<le> now_stale w - timedelta_minutes 10
                         then r\<lparr>status := STATUS_FAILED\<rparr> else r) tbl;
        ids = map row_id (select_pending tbl1);
        tbl2 = map (\<lambda>r. if row_id r \<in> set ids
                         then r\<lparr>status := STATUS_PROCESSING, updated_at := now_processing w\<rparr>
                         else r) tbl1;
        tbl3 = map (\<lambda>r. if row_id r \<in> set ids
                         then r\<lparr>status := STATUS_PROCESSED, updated_at := now_processed w\<rparr>
                         else r) tbl2
    in map updated_at tbl1 = map updated_at tbl \<and>
       (stale_update_exn w = None \<longrightarrow>
          (\<exists>rest. updates (run_effects w tbl) = (tbl, tbl1) # rest)) \<and>
       (stale_update_exn w = None \<and> select_exn w = None \<and> mark_processing_exn w = None \<and>
        select_pending tbl1 \<noteq> [] \<longrightarrow>
          (\<exists>rest. updates (run_effects w tbl) = (tbl, tbl1) # (tbl1, tbl2) # rest)) \<and>
       (run_outcome w tbl = Inr () \<and> select_pending tbl1 \<noteq> [] \<longrightarrow>
          updates (run_effects w tbl) = [(tbl, tbl1), (tbl1, tbl2), (tbl2, tbl3)]) \<and>
       (\<forall>e claimed tbl' eff.
          try_body w tbl = (Inl e, claimed, tbl', eff) \<and> claimed \<noteq> [] \<and>
          mark_failed_exn w = None \<longrightarrow>
            updates (run_effects w tbl) =
              updates eff @
              [(tbl', map (\<lambda>r. if row_id r \<in> set claimed
                                then r\<lparr>status := STATUS_FAILED, updated_at := now_failed w\<rparr>
                                else r) tbl')]))"
proof -
  let ?tbl1 = "stale_reclaim (now_stale w) tbl"
  let ?ids = "map row_id (select_pending ?tbl1)"
  let ?tbl2 = "mark_processing ?ids (now_processing w) ?tbl1"
  let ?tbl3 = "mark_processed ?ids (now_processed w) ?tbl2"
  have kept: "map updated_at ?tbl1 = map updated_at tbl"
    by (simp add: stale_reclaim_def update_where_def Let_def)
  have first: "stale_update_exn w = None \<longrightarrow>
      (\<exists>rest. updates (run_effects w tbl) = (tbl, ?tbl1) # rest)"
    using first_update_of_run [of w tbl] by blast
  have second: "stale_update_exn w = None \<and> select_exn w = None \<and> mark_processing_exn w = None \<and>
      select_pending ?tbl1 \<noteq> [] \<longrightarrow>
      (\<exists>rest. updates (run_effects w tbl) = (tbl, ?tbl1) # (?tbl1, ?tbl2) # rest)"
    using second_update_of_run [of w tbl] by blast
  have third: "run_outcome w tbl = Inr () \<and> select_pending ?tbl1 \<noteq> [] \<longrightarrow>
      updates (run_effects w tbl) = [(tbl, ?tbl1), (?tbl1, ?tbl2), (?tbl2, ?tbl3)]"
  proof
    assume "run_outcome w tbl = Inr () \<and> select_pending ?tbl1 \<noteq> []"
    then have ok: "run_outcome w tbl = Inr ()" and nonempty: "select_pending ?tbl1 \<noteq> []"
      by simp_all
    show "updates (run_effects w tbl) = [(tbl, ?tbl1), (?tbl1, ?tbl2), (?tbl2, ?tbl3)]"
      by (simp add: process_outbox_success [OF ok nonempty] Let_def)
  qed
  have fourth: "\<forall>e claimed tbl' eff.
      try_body w tbl = (Inl e, claimed, tbl', eff) \<and> claimed \<noteq> [] \<and> mark_failed_exn w = None \<longrightarrow>
        updates (run_effects w tbl) =
          updates eff @ [(tbl', mark_failed claimed (now_failed w) tbl')]"
    by (simp add: process_outbox_def Let_def updates_append)
  from kept first second third fourth show ?thesis
    unfolding stale_reclaim_def mark_processing_def mark_processed_def mark_failed_def
      update_where_def Let_def
    by blast
qed

theorem run_updates_write_updated_at_witness:
  "updates (run_effects calm [example_row 1 STATUS_PROCESSING 1 2, example_row 2 STATUS_PENDING 3 3]) =
     [([example_row 1 STATUS_PROCESSING 1 2, example_row 2 STATUS_PENDING 3 3],
       [example_row 1 STATUS_FAILED 1 2, example_row 2 STATUS_PENDING 3 3]),
      ([example_row 1 STATUS_FAILED 1 2, example_row 2 STATUS_PENDING 3 3],
       [example_row 1 STATUS_PROCESSING 1 1000000001, example_row 2 STATUS_PROCESSING 3 1000000001]),
      ([example_row 1 STATUS_PROCESSING 1 1000000001, example_row 2 STATUS_PROCESSING 3 1000000001],
       [example_row 1 STATUS_PROCESSED 1 1000000002, example_row 2 STATUS_PROCESSED 3 1000000002])] \<and>
   updates (run_effects (calm\<lparr>sink_insert_exn := Some (Exception ''sink down'')\<rparr>)
      [example_row 2 STATUS_PENDING 3 3]) =
     [([example_row 2 STATUS_PENDING 3 3], [example_row 2 STATUS_PENDING 3 3]),
      ([example_row 2 STATUS_PENDING 3 3], [example_row 2 STATUS_PROCESSING 3 1000000001]),
      ([example_row 2 STATUS_PROCESSING 3 1000000001], [example_row 2 STATUS_FAILED 3 1000000003])]"
proof -
  let ?tbl = "[example_row 1 STATUS_PROCESSING 1 2, example_row 2 STATUS_PENDING 3 3]"
  let ?one = "[example_row 2 STATUS_PENDING 3 3]"
  let ?w = "calm\<lparr>sink_insert_exn := Some (Exception ''sink down'')\<rparr>"
  have ok: "run_outcome calm ?tbl = Inr ()"
    by (simp add: process_outbox_def try_body_def flush_def Let_def calm_def example_row_def
        stale_reclaim_def select_pending_def update_where_def status_defs timedelta_minutes_def)
  have body: "try_body ?w ?one =
      (Inl (Exception ''sink down''), [2], [example_row 2 STATUS_PROCESSING 3 1000000001],
       [Update ?one ?one, Update ?one [example_row 2 STATUS_PROCESSING 3 1000000001],
        SinkOpen, SinkInsert ?one, SinkClose])"
    by (simp add: try_body_def flush_def Let_def calm_def example_row_def stale_reclaim_def
        select_pending_def mark_processing_def update_where_def status_defs)
  have handler: "mark_failed_exn ?w = None"
    by (simp add: calm_def)
  have success: "updates (run_effects calm ?tbl) =
     [(?tbl, [example_row 1 STATUS_FAILED 1 2, example_row 2 STATUS_PENDING 3 3]),
      ([example_row 1 STATUS_FAILED 1 2, example_row 2 STATUS_PENDING 3 3],
       [example_row 1 STATUS_PROCESSING 1 1000000001, example_row 2 STATUS_PROCESSING 3 1000000001]),
      ([example_row 1 STATUS_PROCESSING 1 1000000001, example_row 2 STATUS_PROCESSING 3 1000000001],
       [example_row 1 STATUS_PROCESSED 1 1000000002, example_row 2 STATUS_PROCESSED 3 1000000002])]"
    using run_updates_write_updated_at [of calm ?tbl] ok
    by (simp add: Let_def select_pending_def example_row_def status_defs calm_def
        timedelta_minutes_def)
  have failure: "updates (run_effects ?w ?one) =
     [(?one, ?one), (?one, [example_row 2 STATUS_PROCESSING 3 1000000001]),
      ([example_row 2 STATUS_PROCESSING 3 1000000001], [example_row 2 STATUS_FAILED 3 1000000003])]"
    using run_updates_write_updated_at [of ?w ?one] body handler
    by (simp add: Let_def example_row_def status_defs calm_def)
  from success failure show ?thesis by (simp only: simp_thms)
qed

section \<open>Claims about records and \<open>log_event\<close>\<close>




text \<open>
  Claim C7. \<open>log_event\<close> never raises. If the insert raises, the error is logged with
  the \<open>event_type\<close>, the table is left as it was and the result is \<open>None\<close>. Otherwise
  the result is the created record, with status \<open>pending\<close>, \<open>metadata_version\<close> 1 and
  \<open>event_date_time\<close> the current time.
\<close>

theorem log_event_never_raises:
  "(\<forall>e. fst (log_event now st etype ctx envname tbl) \<noteq> Inl e) \<and>
   (\<forall>e. insert_exn st (new_row st etype now envname ctx 1 STATUS_PENDING tbl) = Some e \<longrightarrow>
      log_event now st etype ctx envname tbl =
        (Inr None, tbl,
         [LogError ''Failed to log event''
            [(''error'', Str (str e)), (''event_type'', Str etype)]])) \<and>
   (insert_exn st (new_row st etype now envname ctx 1 STATUS_PENDING tbl) = None \<longrightarrow>
      (\<exists>r. log_event now st etype ctx envname tbl = (Inr (Some r), tbl @ [r], []) \<and>
           status r = STATUS_PENDING \<and> metadata_version r = 1 \<and> event_date_time r = now \<and>
           event_type r = etype \<and> environment r = envname \<and> event_context r = ctx))"
  by (simp add: log_event_def objects_create_def new_row_def Let_def split: option.splits)

theorem log_event_never_raises_witness:
  "log_event 5 store_down ''signup'' example_context ''test'' [] =
     (Inr None, [],
      [LogError ''Failed to log event''
         [(''error'', Str ''connection refused''), (''event_type'', Str ''signup'')]]) \<and>
   (\<exists>r. log_event 5 store_up ''signup'' example_context ''test'' [] = (Inr (Some r), [r], []) \<and>
        status r = STATUS_PENDING \<and> metadata_version r = 1 \<and> event_date_time r = 5)"
  using log_event_never_raises [of 5 store_down "''signup''" example_context "''test''" "[]"]
        log_event_never_raises [of 5 store_up "''signup''" example_context "''test''" "[]"]
  by (auto simp add: store_up_def store_down_def)

text \<open>
  Claim C10, as amended. \<open>log_event\<close> checks none of its inputs itself: with an empty
  \<open>event_type\<close> or an empty \<open>environment\<close> the store's insert alone decides. When
  the insert does not raise, the record is created and returned, with status \<open>pending\<close>
  and the empty value; when it raises, the error is logged and the result is \<open>None\<close>.
\<close>

theorem log_event_checks_no_input:
  "(insert_exn st (new_row st [] now envname ctx 1 STATUS_PENDING tbl) = None \<longrightarrow>
      log_event now st [] ctx envname tbl =
        (Inr (Some (new_row st [] now envname ctx 1 STATUS_PENDING tbl)),
         tbl @ [new_row st [] now envname ctx 1 STATUS_PENDING tbl], []) \<and>
      status (new_row st [] now envname ctx 1 STATUS_PENDING tbl) = STATUS_PENDING \<and>
      event_type (new_row st [] now envname ctx 1 STATUS_PENDING tbl) = []) \<and>
   (insert_exn st (new_row st etype now [] ctx 1 STATUS_PENDING tbl) = None \<longrightarrow>
      log_event now st etype ctx [] tbl =
        (Inr (Some (new_row st etype now [] ctx 1 STATUS_PENDING tbl)),
         tbl @ [new_row st etype now [] ctx 1 STATUS_PENDING tbl], []) \<and>
      status (new_row st etype now [] ctx 1 STATUS_PENDING tbl) = STATUS_PENDING \<and>
      environment (new_row st etype now [] ctx 1 STATUS_PENDING tbl) = []) \<and>
   (\<forall>e. insert_exn st (new_row st [] now envname ctx 1 STATUS_PENDING tbl) = Some e \<longrightarrow>
      log_event now st [] ctx envname tbl =
        (Inr None, tbl,
         [LogError ''Failed to log event'' [(''error'', Str (str e)), (''event_type'', Str [])]])) \<and>
   (\<forall>e. insert_exn st (new_row st etype now [] ctx 1 STATUS_PENDING tbl) = Some e \<longrightarrow>
      log_event now st etype ctx [] tbl =
        (Inr None, tbl,
         [LogError ''Failed to log event''
            [(''error'', Str (str e)), (''event_type'', Str etype)]]))"
  by (simp add: log_event_def objects_create_def new_row_def Let_def)

theorem log_event_checks_no_input_witness:
  "log_event 5 store_up [] example_context ''test'' [] =
     (Inr (Some ((example_row 1 STATUS_PENDING 5 8)\<lparr>event_type := [], created_at := 8\<rparr>)),
      [(example_row 1 STATUS_PENDING 5 8)\<lparr>event_type := [], created_at := 8\<rparr>], []) \<and>
   log_event 5 store_up ''TestEvent'' example_context [] [] =
     (Inr (Some ((example_row 1 STATUS_PENDING 5 8)\<lparr>environment := [], created_at := 8\<rparr>)),
      [(example_row 1 STATUS_PENDING 5 8)\<lparr>environment := [], created_at := 8\<rparr>], [])"
  using log_event_checks_no_input [of store_up 5 "''test''" example_context "[]" "''TestEvent''"]
  by (simp add: store_up_def new_row_def next_id_def example_row_def example_context_def
      status_defs)

text \<open>
  Claim C10 as stated fails: with a store whose insert raises, \<open>log_event\<close> called with
  an empty \<open>event_type\<close> or an empty \<open>environment\<close> returns \<open>None\<close>.
\<close>

theorem store_refuses_empty_input_counterexample:
  "log_event 5 store_down [] example_context ''test'' [] =
     (Inr None, [],
      [LogError ''Failed to log event''
         [(''error'', Str ''connection refused''), (''event_type'', Str [])]]) \<and>
   log_event 5 store_down ''TestEvent'' example_context [] [] =
     (Inr None, [],
      [LogError ''Failed to log event''
         [(''error'', Str ''connection refused''), (''event_type'', Str ''TestEvent'')]])"
  by (simp add: log_event_def objects_create_def store_down_def Let_def)

end
